theory Spec2Isabelle
  imports Main "HOL-Library.Word"
begin

section \<open>Values shared by the packages\<close>

text \<open>
  \<^verbatim>\<open>time.Duration\<close> is an \<^verbatim>\<open>int64\<close> count of nanoseconds; its arithmetic wraps.
  An instant (\<^verbatim>\<open>time.Time\<close>) is kept as the number of nanoseconds since Go's zero time, so
  that the zero value of the type is \<open>0\<close>. \<^verbatim>\<open>uuid.UUID\<close> is a \<^verbatim>\<open>[16]byte\<close>, kept as one
  128-bit word.
\<close>

type_synonym Duration = "64 word"
type_synonym Time = int
type_synonym UUID_t = "128 word"

definition Minute :: Duration where
  \<comment> \<open>\<^verbatim>\<open>time.Minute = 60 * Second\<close>, in nanoseconds\<close>
  "Minute = 60000000000"

definition Time_Add :: "Time \<Rightarrow> Duration \<Rightarrow> Time" where
  \<comment> \<open>\<^verbatim>\<open>t.Add(d)\<close>: the instant \<open>d\<close> (read as a signed count) after \<open>t\<close>\<close>
  "Time_Add t d = t + sint d"

text \<open>
  Go's \<^verbatim>\<open>error\<close> values. \<open>ErrorsNew m\<close> is \<^verbatim>\<open>errors.New(m)\<close> made by this program;
  \<open>ErrEmptyClaim\<close>, \<open>ErrSign\<close> and \<open>ErrResourceNotFound\<close> are the sentinels of the domain
  packages, \<open>ErrNoRows\<close> is \<^verbatim>\<open>sql.ErrNoRows\<close>; \<open>LibraryError m\<close> is any error made
  by a collaborator (the repository adapter, the SQL driver, the \<^verbatim>\<open>time\<close> package), named
  by its message. A \<^verbatim>\<open>nil\<close> error is \<open>None\<close>.
\<close>

datatype error =
    ErrorsNew string
  | ErrEmptyClaim
  | ErrSign
  | ErrResourceNotFound
  | ErrNoRows
  | LibraryError string

text \<open>
  \<^verbatim>\<open>usersDomain.User\<close>, with the fields the sources read and write.
\<close>

record User =
  UUID :: UUID_t
  Name :: string
  Email :: string
  Password :: string
  CreatedAt :: Time
  UpdatedAt :: Time

definition User_zero :: User where
  \<comment> \<open>the zero value of the struct, as \<^verbatim>\<open>var user domain.User\<close> gives it\<close>
  "User_zero = \<lparr>UUID = 0, Name = [], Email = [], Password = [], CreatedAt = 0, UpdatedAt = 0\<rparr>"

record AuthToken =
  Token :: string

section \<open>The authentication use case (app/auth/usecase/usecase.go)\<close>

text \<open>
  \<^verbatim>\<open>jwt.NewNumericDate(t)\<close> is the library's constructor of a claim date from an instant.
  \<^verbatim>\<open>jwt.RegisteredClaims\<close> has seven fields; a field left out of a struct literal has its
  zero value (\<^verbatim>\<open>nil\<close> for the dates, the empty string for \<^verbatim>\<open>ID\<close>). The claims of
  \<^verbatim>\<open>generateToken\<close> embed it and add the identity fields, whose JSON names are
  \<^verbatim>\<open>id\<close>, \<^verbatim>\<open>name\<close> and \<^verbatim>\<open>email\<close>.
\<close>

datatype NumericDate = NewNumericDate Time

record RegisteredClaims =
  Issuer :: string
  Subject :: string
  Audience :: "string list"
  ExpiresAt :: "NumericDate option"
  NotBefore :: "NumericDate option"
  IssuedAt :: "NumericDate option"
  ID :: string

record Claims = RegisteredClaims +
  claim_UUID :: UUID_t
  claim_Name :: string
  claim_Email :: string

text \<open>
  What a call of the use case reads from outside: the injected repository
  (\<^verbatim>\<open>a.authRepo.Authenticate(ctx, email)\<close>, a record and an error), the password hasher
  (\<^verbatim>\<open>bcrypt.CheckPasswordHash(password, hash)\<close>), the process environment
  (\<^verbatim>\<open>os.Getenv\<close>), \<^verbatim>\<open>time.ParseDuration\<close>, the clock (\<^verbatim>\<open>time.Now()\<close>, read once per
  call) and the signer (\<^verbatim>\<open>jwt.NewWithClaims(jwt.SigningMethodHS256, claims).SignedString(key)\<close>).
  Each returns what the Go function returns: a value and an error. The repository
  returns a pointer to the record, \<open>None\<close> when \<^verbatim>\<open>nil\<close>; nothing in its type keeps it
  from returning a \<^verbatim>\<open>nil\<close> pointer with a \<^verbatim>\<open>nil\<close> error.
\<close>

record env =
  authRepo :: "string \<Rightarrow> User option \<times> error option"
  CheckPasswordHash :: "string \<Rightarrow> string \<Rightarrow> bool"
  Getenv :: "string \<Rightarrow> string"
  ParseDuration :: "string \<Rightarrow> Duration \<times> error option"
  Now :: Time
  SignedString :: "string \<Rightarrow> Claims \<Rightarrow> string \<times> error option"

text \<open>
  \<^verbatim>\<open>generateToken(claimKey, claimValue, expiration)\<close>; \<open>claimValue\<close> is a pointer, \<open>None\<close>
  when \<^verbatim>\<open>nil\<close>.
\<close>

definition generateToken :: "env \<Rightarrow> string \<Rightarrow> User option \<Rightarrow> Time \<Rightarrow> string \<times> error option" where
  "generateToken e claimKey claimValue expiration =
     (if claimKey = [] \<or> claimValue = None then ([], Some ErrEmptyClaim)
      else
        let signingKey = Getenv e ''JWT_SECRET'';
            claims = \<lparr>Issuer = ''Hexagony'',
                      Subject = ''https://github.com/cyruzin/hexagony'',
                      Audience = [''Clean Architecture''],
                      ExpiresAt = Some (NewNumericDate expiration),
                      NotBefore = None,
                      IssuedAt = None,
                      ID = [],
                      claim_UUID = UUID (the claimValue),
                      claim_Name = Name (the claimValue),
                      claim_Email = Email (the claimValue)\<rparr>;
            (payload, err) = SignedString e signingKey claims
        in if err \<noteq> None then ([], Some ErrSign) else (payload, None))"

text \<open>
  A call either returns its results or panics.
\<close>

datatype 'a outcome = Returns 'a | Panics

text \<open>
  \<^verbatim>\<open>Authenticate(ctx, email, password)\<close> returns a pointer to a token and an error. Line
  34 reads \<^verbatim>\<open>user.Password\<close> with no test of the pointer: on a \<^verbatim>\<open>nil\<close> record with a
  \<^verbatim>\<open>nil\<close> error the call panics there. The claims record it builds sets three fields of
  a \<^verbatim>\<open>User\<close> and leaves the others zero.
\<close>

definition Authenticate ::
  "env \<Rightarrow> string \<Rightarrow> string \<Rightarrow> (AuthToken option \<times> error option) outcome" where
  "Authenticate e email password =
     (let (user, err) = authRepo e email in
      if err \<noteq> None then Returns (None, err)
      else
        case user of
          None \<Rightarrow> Panics
        | Some user \<Rightarrow>
            if \<not> CheckPasswordHash e password (Password user)
            then Returns (None, Some (ErrorsNew ''authentication failed''))
            else
              let customClaims =
                    User_zero\<lparr>UUID := UUID user, Name := Name user, Email := Email user\<rparr>;
                  jwtDuration = Getenv e ''JWT_DURATION'';
                  jwtDuration = (if jwtDuration = [] then ''60m'' else jwtDuration);
                  (duration, err) = ParseDuration e jwtDuration
              in if err \<noteq> None then Returns (None, err)
                 else
                   let expiration = Minute * duration;
                       tokenExpiration = Time_Add (Now e) expiration;
                       (token, err) =
                         generateToken e ''user'' (Some customClaims) tokenExpiration
                   in if err \<noteq> None then Returns (None, err)
                      else Returns (Some \<lparr>Token = token\<rparr>, None))"

section \<open>The users repository (app/users/repository/mariadb/repository.go)\<close>

text \<open>
  The statements the repository sends are constants of its package, named here as the
  source names them; a statement's arguments are strings, instants and identifiers.
\<close>

datatype query = sqlFindAll | sqlFindByID | sqlAdd | sqlUpdate | sqlDelete

datatype arg = ArgString string | ArgTime Time | ArgUUID UUID_t

text \<open>
  \<^verbatim>\<open>sql.Result\<close>, by what its method \<^verbatim>\<open>RowsAffected()\<close> returns: an \<^verbatim>\<open>int64\<close> and an
  error.
\<close>

record Result =
  RowsAffected :: "64 word \<times> error option"

text \<open>
  The connection (\<^verbatim>\<open>*sqlx.DB\<close>), by what each call made on it returns.
  \<^verbatim>\<open>SelectContext\<close> and \<^verbatim>\<open>GetContext\<close> are handed a destination and may write to it:
  they take its value before the call and return its value after the call, with the error.
  A \<^verbatim>\<open>nil\<close> slice is the empty list.
\<close>

record conn =
  SelectContext :: "User list \<Rightarrow> query \<Rightarrow> arg list \<Rightarrow> User list \<times> error option"
  GetContext :: "User \<Rightarrow> query \<Rightarrow> arg list \<Rightarrow> User \<times> error option"
  ExecContext :: "query \<Rightarrow> arg list \<Rightarrow> Result \<times> error option"

definition FindAll :: "conn \<Rightarrow> User list \<times> error option" where
  "FindAll r =
     (let users = [];
          (users, err) = SelectContext r users sqlFindAll []
      in if err \<noteq> None \<and> err \<noteq> Some ErrNoRows then ([], err)
         else (users, None))"

definition FindByID :: "conn \<Rightarrow> UUID_t \<Rightarrow> User option \<times> error option" where
  "FindByID r uuid =
     (let user = User_zero;
          (user, err) = GetContext r user sqlFindByID [ArgUUID uuid]
      in if err \<noteq> None \<and> err \<noteq> Some ErrNoRows then (None, err)
         else (Some user, None))"

definition Add_user :: "conn \<Rightarrow> User \<Rightarrow> error option" where
  \<comment> \<open>\<^verbatim>\<open>Add(ctx, user)\<close>\<close>
  "Add_user r user =
     (let (result, err) = ExecContext r sqlAdd
             [ArgUUID (UUID user), ArgString (Name user), ArgString (Email user),
              ArgString (Password user), ArgTime (CreatedAt user), ArgTime (UpdatedAt user)]
      in if err \<noteq> None then err else None)"

definition Update :: "conn \<Rightarrow> UUID_t \<Rightarrow> User \<Rightarrow> error option" where
  "Update r uuid user =
     (let (result, err) = ExecContext r sqlUpdate
             [ArgString (Name user), ArgString (Email user), ArgString (Password user),
              ArgTime (UpdatedAt user), ArgUUID uuid]
      in if err \<noteq> None then err
         else
           let (rowsAffected, err) = RowsAffected result
           in if err \<noteq> None then err
              else if rowsAffected = 0 then Some ErrResourceNotFound
              else None)"

definition Delete :: "conn \<Rightarrow> UUID_t \<Rightarrow> error option" where
  "Delete r uuid =
     (let (result, err) = ExecContext r sqlDelete [ArgUUID uuid]
      in if err \<noteq> None then err
         else
           let (rowsAffected, err) = RowsAffected result
           in if err \<noteq> None then err
              else if rowsAffected = 0 then Some ErrResourceNotFound
              else None)"

section \<open>Sample inputs\<close>

text \<open>
  A repository holding one account, a hasher that accepts \<open>p\<close> against \<open>H:p\<close>, an
  environment with a signing secret and no \<^verbatim>\<open>JWT_DURATION\<close>, a duration parser that
  knows \<^verbatim>\<open>"60m"\<close>, and a signer that always succeeds.
\<close>

definition env_demo :: env where
  "env_demo =
     \<lparr>authRepo = (\<lambda>email. if email = ''a@b.com''
                   then (Some \<lparr>UUID = 7, Name = ''Ann'', Email = ''a@b.com'',
                                Password = ''H:correctpw'', CreatedAt = 5, UpdatedAt = 6\<rparr>, None)
                   else (None, Some (LibraryError ''sql: no rows in result set''))),
      CheckPasswordHash = (\<lambda>password hash. hash = ''H:'' @ password),
      Getenv = (\<lambda>k. if k = ''JWT_SECRET'' then ''secret'' else []),
      ParseDuration = (\<lambda>s. if s = ''60m'' then (3600000000000, None)
                        else (0, Some (LibraryError ''time: invalid duration''))),
      Now = 1000,
      SignedString = (\<lambda>key claims. (''h.p.s'', None))\<rparr>"

text \<open>The same, with \<^verbatim>\<open>JWT_DURATION=abc\<close>.\<close>

definition env_abc :: env where
  "env_abc = env_demo\<lparr>Getenv := (\<lambda>k. if k = ''JWT_DURATION'' then ''abc'' else Getenv env_demo k)\<rparr>"

text \<open>The same, with a signer that fails.\<close>

definition env_nosign :: env where
  "env_nosign = env_demo\<lparr>SignedString := (\<lambda>key claims. ([], Some (LibraryError ''key is invalid'')))\<rparr>"

text \<open>The same, with a repository that answers with no record and no error.\<close>

definition env_nil :: env where
  "env_nil = env_demo\<lparr>authRepo := (\<lambda>email. (None, None))\<rparr>"

text \<open>
  A connection whose table has no row: reads leave the destination as it was and report
  no row, an update touches one row and a delete none.
\<close>

definition conn_demo :: conn where
  "conn_demo =
     \<lparr>SelectContext = (\<lambda>dest q args. (dest, None)),
      GetContext = (\<lambda>dest q args. (dest, Some ErrNoRows)),
      ExecContext = (\<lambda>q args. (\<lparr>RowsAffected = (if q = sqlDelete then 0 else 1, None)\<rparr>, None))\<rparr>"

section \<open>Properties of the authentication use case\<close>

text \<open>
  Claim C1 (the expiration with \<^verbatim>\<open>JWT_DURATION\<close> unset). When the lookup and the password
  check succeed, \<^verbatim>\<open>JWT_DURATION\<close> is unset and \<^verbatim>\<open>time.ParseDuration("60m")\<close> is sixty
  minutes, the expiration handed to the signer is the issuance time plus
  7073640934860128256 nanoseconds: line 55 multiplies the parsed duration by
  \<^verbatim>\<open>time.Minute\<close> once more, and the product wraps around in 64 bits. That instant is not
  the issuance time plus sixty minutes.
\<close>

theorem Authenticate_default_window:
  assumes "authRepo e email = (Some user, None)"
    and "CheckPasswordHash e password (Password user)"
    and "Getenv e ''JWT_DURATION'' = []"
    and "ParseDuration e ''60m'' = (60 * Minute, None)"
  shows "Authenticate e email password =
     Returns
       (case SignedString e (Getenv e ''JWT_SECRET'')
               \<lparr>Issuer = ''Hexagony'',
                Subject = ''https://github.com/cyruzin/hexagony'',
                Audience = [''Clean Architecture''],
                ExpiresAt = Some (NewNumericDate (Now e + 7073640934860128256)),
                NotBefore = None, IssuedAt = None, ID = [],
                claim_UUID = UUID user,
                claim_Name = Name user,
                claim_Email = Email user\<rparr> of
          (payload, None) \<Rightarrow> (Some \<lparr>Token = payload\<rparr>, None)
        | (payload, Some x) \<Rightarrow> (None, Some ErrSign))
    \<and> Now e + 7073640934860128256 \<noteq> Time_Add (Now e) (60 * Minute)"
  using assms
  by (auto simp add: Authenticate_def generateToken_def Minute_def Time_Add_def User_zero_def
        split: prod.splits option.splits)

theorem Authenticate_default_window_witness:
  "Authenticate env_demo ''a@b.com'' ''correctpw'' = Returns (Some \<lparr>Token = ''h.p.s''\<rparr>, None)
   \<and> SignedString env_demo ''secret''
        \<lparr>Issuer = ''Hexagony'',
         Subject = ''https://github.com/cyruzin/hexagony'',
         Audience = [''Clean Architecture''],
         ExpiresAt = Some (NewNumericDate (1000 + 7073640934860128256)),
         NotBefore = None, IssuedAt = None, ID = [],
         claim_UUID = 7, claim_Name = ''Ann'', claim_Email = ''a@b.com''\<rparr> = (''h.p.s'', None)"
proof -
  have h1: "authRepo env_demo ''a@b.com''
      = (Some \<lparr>UUID = 7, Name = ''Ann'', Email = ''a@b.com'',
                Password = ''H:correctpw'', CreatedAt = 5, UpdatedAt = 6\<rparr>, None)"
    by (simp add: env_demo_def)
  have h2: "CheckPasswordHash env_demo ''correctpw''
      (Password \<lparr>UUID = 7, Name = ''Ann'', Email = ''a@b.com'',
                  Password = ''H:correctpw'', CreatedAt = 5, UpdatedAt = 6\<rparr>)"
    by (simp add: env_demo_def)
  have h3: "Getenv env_demo ''JWT_DURATION'' = []" by (simp add: env_demo_def)
  have h4: "ParseDuration env_demo ''60m'' = (60 * Minute, None)"
    by (simp add: env_demo_def Minute_def)
  from Authenticate_default_window [OF h1 h2 h3 h4] show ?thesis
    by (simp add: env_demo_def)
qed

text \<open>
  Claim C2 (wrong password). When the repository returns the stored record with no error
  and the supplied password does not match the stored hash, \<open>Authenticate\<close> returns a
  \<^verbatim>\<open>nil\<close> token and the error \<^verbatim>\<open>errors.New("authentication failed")\<close>.
\<close>

theorem Authenticate_wrong_password:
  assumes "authRepo e email = (Some user, None)"
    and "\<not> CheckPasswordHash e password (Password user)"
  shows "Authenticate e email password
           = Returns (None, Some (ErrorsNew ''authentication failed''))"
  using assms by (simp add: Authenticate_def)

theorem Authenticate_wrong_password_witness:
  "Authenticate env_demo ''a@b.com'' ''wrongpw''
     = Returns (None, Some (ErrorsNew ''authentication failed''))"
proof -
  have h1: "authRepo env_demo ''a@b.com''
      = (Some \<lparr>UUID = 7, Name = ''Ann'', Email = ''a@b.com'',
                Password = ''H:correctpw'', CreatedAt = 5, UpdatedAt = 6\<rparr>, None)"
    by (simp add: env_demo_def)
  have h2: "\<not> CheckPasswordHash env_demo ''wrongpw''
      (Password \<lparr>UUID = 7, Name = ''Ann'', Email = ''a@b.com'',
                  Password = ''H:correctpw'', CreatedAt = 5, UpdatedAt = 6\<rparr>)"
    by (simp add: env_demo_def)
  from Authenticate_wrong_password [OF h1 h2] show ?thesis .
qed

text \<open>
  Claim C3 (no token without a password match). If \<open>Authenticate\<close> returns a token, the
  lookup returned a record with no error and the password matched the stored hash.
  Conversely, when the lookup fails or the password does not match the hash of the
  record, the call returns no token and an error, and it has ended before the lifetime
  is read and the token is issued: the result is the same in any environment with the
  same repository and hasher, whatever its configuration, clock and signer.
\<close>

theorem Authenticate_token_needs_match:
  "(Authenticate e email password = Returns (Some t, err)
      \<longrightarrow> (\<exists>user. authRepo e email = (Some user, None)
            \<and> CheckPasswordHash e password (Password user)))
   \<and> (snd (authRepo e email) \<noteq> None
        \<or> (\<exists>user. fst (authRepo e email) = Some user
              \<and> \<not> CheckPasswordHash e password (Password user))
      \<longrightarrow> (\<exists>x. Authenticate e email password = Returns (None, Some x))
          \<and> (\<forall>e'. authRepo e' = authRepo e \<and> CheckPasswordHash e' = CheckPasswordHash e
                \<longrightarrow> Authenticate e' email password = Authenticate e email password))"
proof -
  obtain u r where a: "authRepo e email = (u, r)"
    by (cases "authRepo e email")
  show ?thesis
  proof (cases r)
    case (Some x)
    with a show ?thesis by (simp add: Authenticate_def)
  next
    case None
    show ?thesis
    proof (cases u)
      case None
      with a \<open>r = None\<close> show ?thesis by (simp add: Authenticate_def)
    next
      case (Some user)
      with a \<open>r = None\<close> show ?thesis
        by (cases "CheckPasswordHash e password (Password user)")
           (simp_all add: Authenticate_def)
    qed
  qed
qed

theorem Authenticate_token_needs_match_witness:
  "Authenticate env_demo ''a@b.com'' ''correctpw'' = Returns (Some \<lparr>Token = ''h.p.s''\<rparr>, None)
   \<and> (\<exists>user. authRepo env_demo ''a@b.com'' = (Some user, None)
         \<and> CheckPasswordHash env_demo ''correctpw'' (Password user))
   \<and> (\<exists>user. fst (authRepo env_demo ''a@b.com'') = Some user
         \<and> \<not> CheckPasswordHash env_demo ''wrongpw'' (Password user))
   \<and> (\<exists>x. Authenticate env_demo ''a@b.com'' ''wrongpw'' = Returns (None, Some x))
   \<and> snd (authRepo env_demo ''x@y.org'') \<noteq> None
   \<and> (\<exists>x. Authenticate env_demo ''x@y.org'' ''correctpw'' = Returns (None, Some x))"
proof -
  have ok: "Authenticate env_demo ''a@b.com'' ''correctpw''
      = Returns (Some \<lparr>Token = ''h.p.s''\<rparr>, None)"
    by (simp add: Authenticate_def generateToken_def env_demo_def)
  have bad: "\<exists>user. fst (authRepo env_demo ''a@b.com'') = Some user
         \<and> \<not> CheckPasswordHash env_demo ''wrongpw'' (Password user)"
    by (simp add: env_demo_def)
  have missing: "snd (authRepo env_demo ''x@y.org'') \<noteq> None"
    by (simp add: env_demo_def)
  from ok bad missing
    Authenticate_token_needs_match [of env_demo "''a@b.com''" "''correctpw''"
      "\<lparr>Token = ''h.p.s''\<rparr>" None]
    Authenticate_token_needs_match [of env_demo "''a@b.com''" "''wrongpw''"]
    Authenticate_token_needs_match [of env_demo "''x@y.org''" "''correctpw''"]
  show ?thesis by blast
qed

text \<open>
  Claim C4 (a token or an error). As stated for every call, the claim fails: when the
  repository answers with a \<^verbatim>\<open>nil\<close> record and a \<^verbatim>\<open>nil\<close> error, the call panics at
  line 34 and returns neither a token nor an error.
\<close>

theorem Authenticate_token_or_error_counterexample:
  "authRepo env_nil ''a@b.com'' = (None, None)
   \<and> Authenticate env_nil ''a@b.com'' ''correctpw'' = Panics"
  by (simp add: Authenticate_def env_nil_def)

text \<open>
  Claim C4, amended. In every call where the repository does not answer with a
  \<^verbatim>\<open>nil\<close> record and a \<^verbatim>\<open>nil\<close> error, \<open>Authenticate\<close> returns either a token with a
  \<^verbatim>\<open>nil\<close> error or a \<^verbatim>\<open>nil\<close> token with an error. A failure at any step aborts the
  issuance: a failed lookup, a password that does not match, a lifetime that does not
  parse and a failed \<open>generateToken\<close> each give a \<^verbatim>\<open>nil\<close> token with that step's error.
  A token is returned only when every step has succeeded, and it is then the whole
  signed string \<open>generateToken\<close> returned.
\<close>

theorem Authenticate_token_or_error:
  assumes "authRepo e email \<noteq> (None, None)"
  shows "((\<exists>t. Authenticate e email password = Returns (Some t, None))
          \<or> (\<exists>x. Authenticate e email password = Returns (None, Some x)))
     \<and> (\<forall>x. snd (authRepo e email) = Some x
            \<longrightarrow> Authenticate e email password = Returns (None, Some x))
     \<and> (\<forall>user. authRepo e email = (Some user, None)
            \<and> \<not> CheckPasswordHash e password (Password user)
            \<longrightarrow> Authenticate e email password
                  = Returns (None, Some (ErrorsNew ''authentication failed'')))
     \<and> (\<forall>user x. authRepo e email = (Some user, None)
            \<and> CheckPasswordHash e password (Password user)
            \<and> snd (ParseDuration e (if Getenv e ''JWT_DURATION'' = [] then ''60m''
                                      else Getenv e ''JWT_DURATION'')) = Some x
            \<longrightarrow> Authenticate e email password = Returns (None, Some x))
     \<and> (\<forall>user x. authRepo e email = (Some user, None)
            \<and> CheckPasswordHash e password (Password user)
            \<and> snd (ParseDuration e (if Getenv e ''JWT_DURATION'' = [] then ''60m''
                                      else Getenv e ''JWT_DURATION'')) = None
            \<and> snd (generateToken e ''user''
                     (Some (User_zero\<lparr>UUID := UUID user, Name := Name user, Email := Email user\<rparr>))
                     (Time_Add (Now e)
                        (Minute * fst (ParseDuration e
                           (if Getenv e ''JWT_DURATION'' = [] then ''60m''
                            else Getenv e ''JWT_DURATION''))))) = Some x
            \<longrightarrow> Authenticate e email password = Returns (None, Some x))
     \<and> (\<forall>t. Authenticate e email password = Returns (Some t, None)
            \<longrightarrow> (\<exists>user. authRepo e email = (Some user, None)
                  \<and> CheckPasswordHash e password (Password user)
                  \<and> snd (ParseDuration e (if Getenv e ''JWT_DURATION'' = [] then ''60m''
                                            else Getenv e ''JWT_DURATION'')) = None
                  \<and> generateToken e ''user''
                     (Some (User_zero\<lparr>UUID := UUID user, Name := Name user, Email := Email user\<rparr>))
                     (Time_Add (Now e)
                        (Minute * fst (ParseDuration e
                           (if Getenv e ''JWT_DURATION'' = [] then ''60m''
                            else Getenv e ''JWT_DURATION''))))
                    = (Token t, None)))"
proof -
  obtain u r where a: "authRepo e email = (u, r)"
    by (cases "authRepo e email")
  show ?thesis
  proof (cases r)
    case (Some x)
    with a show ?thesis by (simp add: Authenticate_def)
  next
    case None
    with a assms obtain user where u: "u = Some user"
      by (cases u) simp_all
    note b = a [unfolded u \<open>r = None\<close>]
    show ?thesis
    proof (cases "CheckPasswordHash e password (Password user)")
      case False
      with b show ?thesis by (simp add: Authenticate_def)
    next
      case True
      obtain d p where pd: "ParseDuration e (if Getenv e ''JWT_DURATION'' = [] then ''60m''
                                      else Getenv e ''JWT_DURATION'') = (d, p)"
        by (cases "ParseDuration e (if Getenv e ''JWT_DURATION'' = [] then ''60m''
                                      else Getenv e ''JWT_DURATION'')")
      show ?thesis
      proof (cases p)
        case (Some y)
        with b True pd show ?thesis by (simp add: Authenticate_def Let_def)
      next
        case None
        obtain tok g where gt: "generateToken e ''user''
                     (Some (User_zero\<lparr>UUID := UUID user, Name := Name user, Email := Email user\<rparr>))
                     (Time_Add (Now e) (Minute * d)) = (tok, g)"
          by (cases "generateToken e ''user''
                     (Some (User_zero\<lparr>UUID := UUID user, Name := Name user, Email := Email user\<rparr>))
                     (Time_Add (Now e) (Minute * d))")
        from b True pd None gt show ?thesis
          by (cases g) (simp_all add: Authenticate_def Let_def)
      qed
    qed
  qed
qed

theorem Authenticate_token_or_error_witness:
  "authRepo env_demo ''a@b.com'' \<noteq> (None, None)
   \<and> Authenticate env_demo ''a@b.com'' ''wrongpw''
       = Returns (None, Some (ErrorsNew ''authentication failed''))
   \<and> authRepo env_demo ''x@y.org'' \<noteq> (None, None)
   \<and> Authenticate env_demo ''x@y.org'' ''correctpw''
       = Returns (None, Some (LibraryError ''sql: no rows in result set''))
   \<and> authRepo env_abc ''a@b.com'' \<noteq> (None, None)
   \<and> Authenticate env_abc ''a@b.com'' ''correctpw''
       = Returns (None, Some (LibraryError ''time: invalid duration''))
   \<and> authRepo env_nosign ''a@b.com'' \<noteq> (None, None)
   \<and> Authenticate env_nosign ''a@b.com'' ''correctpw'' = Returns (None, Some ErrSign)"
proof -
  have h1: "authRepo env_demo ''a@b.com'' \<noteq> (None, None)" by (simp add: env_demo_def)
  have h2: "authRepo env_demo ''x@y.org'' \<noteq> (None, None)" by (simp add: env_demo_def)
  have h3: "authRepo env_abc ''a@b.com'' \<noteq> (None, None)" by (simp add: env_abc_def env_demo_def)
  have h4: "authRepo env_nosign ''a@b.com'' \<noteq> (None, None)"
    by (simp add: env_nosign_def env_demo_def)
  from Authenticate_token_or_error [OF h1, of "''wrongpw''"]
  have c1: "Authenticate env_demo ''a@b.com'' ''wrongpw''
       = Returns (None, Some (ErrorsNew ''authentication failed''))"
    by (simp add: env_demo_def)
  from Authenticate_token_or_error [OF h2, of "''correctpw''"]
  have c2: "Authenticate env_demo ''x@y.org'' ''correctpw''
       = Returns (None, Some (LibraryError ''sql: no rows in result set''))"
    by (simp add: env_demo_def)
  from Authenticate_token_or_error [OF h3, of "''correctpw''"]
  have c3: "Authenticate env_abc ''a@b.com'' ''correctpw''
       = Returns (None, Some (LibraryError ''time: invalid duration''))"
    by (simp add: env_abc_def env_demo_def)
  from Authenticate_token_or_error [OF h4, of "''correctpw''"]
  have c4: "Authenticate env_nosign ''a@b.com'' ''correctpw'' = Returns (None, Some ErrSign)"
    by (simp add: env_nosign_def env_demo_def generateToken_def User_zero_def)
  from h1 h2 h3 h4 c1 c2 c3 c4 show ?thesis by simp
qed

text \<open>
  Claim C5 (a failed lookup). When the repository returns an error, \<open>Authenticate\<close>
  returns that same error and a \<^verbatim>\<open>nil\<close> token.
\<close>

theorem Authenticate_lookup_error:
  assumes "snd (authRepo e email) = Some x"
  shows "Authenticate e email password = Returns (None, Some x)"
  using assms by (cases "authRepo e email") (simp add: Authenticate_def)

theorem Authenticate_lookup_error_witness:
  "Authenticate env_demo ''x@y.org'' ''correctpw''
     = Returns (None, Some (LibraryError ''sql: no rows in result set''))"
proof -
  have h: "snd (authRepo env_demo ''x@y.org'') = Some (LibraryError ''sql: no rows in result set'')"
    by (simp add: env_demo_def)
  from Authenticate_lookup_error [OF h] show ?thesis .
qed

text \<open>
  Claim C6 (the precondition of the issuer). With a blank claim key or a \<^verbatim>\<open>nil\<close> claims
  pointer, \<open>generateToken\<close> returns the empty string and \<open>ErrEmptyClaim\<close>, whatever the
  signer would have done.
\<close>

theorem generateToken_empty_claim:
  assumes "claimKey = [] \<or> claimValue = None"
  shows "generateToken e claimKey claimValue expiration = ([], Some ErrEmptyClaim)"
  using assms by (simp add: generateToken_def)

theorem generateToken_empty_claim_witness:
  "generateToken env_demo [] (Some User_zero) 1000 = ([], Some ErrEmptyClaim)
   \<and> generateToken env_demo ''user'' None 1000 = ([], Some ErrEmptyClaim)"
proof -
  have h1: "([]::string) = [] \<or> Some User_zero = None" by simp
  have h2: "''user'' = [] \<or> (None :: User option) = None" by simp
  from generateToken_empty_claim [OF h1] generateToken_empty_claim [OF h2] show ?thesis by simp
qed

text \<open>
  Claim C7 (the claims of an issued token). When \<open>generateToken\<close> returns no error, its
  result is what the signer made, under the secret of the environment, of exactly these
  claims: issuer \<^verbatim>\<open>Hexagony\<close>, subject \<^verbatim>\<open>https://github.com/cyruzin/hexagony\<close>,
  audience \<^verbatim>\<open>Clean Architecture\<close>, the expiration passed in, no other registered claim,
  and the id, name and email of the record passed in. When \<open>Authenticate\<close> returns a
  token, those three are the id, name and email of the record the repository returned.
\<close>

theorem token_claims:
  "(generateToken e claimKey claimValue expiration = (payload, None)
      \<longrightarrow> (\<exists>cv. claimValue = Some cv
            \<and> SignedString e (Getenv e ''JWT_SECRET'')
                \<lparr>Issuer = ''Hexagony'',
                 Subject = ''https://github.com/cyruzin/hexagony'',
                 Audience = [''Clean Architecture''],
                 ExpiresAt = Some (NewNumericDate expiration),
                 NotBefore = None, IssuedAt = None, ID = [],
                 claim_UUID = UUID cv, claim_Name = Name cv, claim_Email = Email cv\<rparr>
              = (payload, None)))
   \<and> (Authenticate e email password = Returns (Some tok, err)
      \<longrightarrow> (\<exists>user expiration.
            fst (authRepo e email) = Some user
            \<and> SignedString e (Getenv e ''JWT_SECRET'')
                \<lparr>Issuer = ''Hexagony'',
                 Subject = ''https://github.com/cyruzin/hexagony'',
                 Audience = [''Clean Architecture''],
                 ExpiresAt = Some (NewNumericDate expiration),
                 NotBefore = None, IssuedAt = None, ID = [],
                 claim_UUID = UUID user,
                 claim_Name = Name user,
                 claim_Email = Email user\<rparr>
              = (Token tok, None)))"
proof (intro conjI impI)
  assume g: "generateToken e claimKey claimValue expiration = (payload, None)"
  then obtain cv where cv: "claimValue = Some cv"
    by (cases claimValue) (simp_all add: generateToken_def)
  with g show "\<exists>cv. claimValue = Some cv
            \<and> SignedString e (Getenv e ''JWT_SECRET'')
                \<lparr>Issuer = ''Hexagony'',
                 Subject = ''https://github.com/cyruzin/hexagony'',
                 Audience = [''Clean Architecture''],
                 ExpiresAt = Some (NewNumericDate expiration),
                 NotBefore = None, IssuedAt = None, ID = [],
                 claim_UUID = UUID cv, claim_Name = Name cv, claim_Email = Email cv\<rparr>
              = (payload, None)"
    by (auto simp add: generateToken_def split: if_splits prod.splits)
next
  assume a: "Authenticate e email password = Returns (Some tok, err)"
  obtain u rerr where r: "authRepo e email = (u, rerr)"
    by (cases "authRepo e email")
  from a r show "\<exists>user expiration.
            fst (authRepo e email) = Some user
            \<and> SignedString e (Getenv e ''JWT_SECRET'')
                \<lparr>Issuer = ''Hexagony'',
                 Subject = ''https://github.com/cyruzin/hexagony'',
                 Audience = [''Clean Architecture''],
                 ExpiresAt = Some (NewNumericDate expiration),
                 NotBefore = None, IssuedAt = None, ID = [],
                 claim_UUID = UUID user,
                 claim_Name = Name user,
                 claim_Email = Email user\<rparr>
              = (Token tok, None)"
    by (cases u)
       (auto simp add: Authenticate_def generateToken_def User_zero_def Let_def
          split: if_splits prod.splits)
qed

theorem token_claims_witness:
  "generateToken env_demo ''user'' (fst (authRepo env_demo ''a@b.com'')) 4600 = (''h.p.s'', None)
   \<and> Authenticate env_demo ''a@b.com'' ''correctpw'' = Returns (Some \<lparr>Token = ''h.p.s''\<rparr>, None)
   \<and> (\<exists>expiration. SignedString env_demo ''secret''
         \<lparr>Issuer = ''Hexagony'',
          Subject = ''https://github.com/cyruzin/hexagony'',
          Audience = [''Clean Architecture''],
          ExpiresAt = Some (NewNumericDate expiration),
          NotBefore = None, IssuedAt = None, ID = [],
          claim_UUID = 7, claim_Name = ''Ann'', claim_Email = ''a@b.com''\<rparr> = (''h.p.s'', None))"
proof -
  have g: "generateToken env_demo ''user'' (fst (authRepo env_demo ''a@b.com'')) 4600 = (''h.p.s'', None)"
    by (simp add: generateToken_def env_demo_def)
  have a: "Authenticate env_demo ''a@b.com'' ''correctpw'' = Returns (Some \<lparr>Token = ''h.p.s''\<rparr>, None)"
    by (simp add: Authenticate_def generateToken_def env_demo_def)
  from token_claims [of env_demo "''user''" "fst (authRepo env_demo ''a@b.com'')" 4600 "''h.p.s''"
      "''a@b.com''" "''correctpw''" "\<lparr>Token = ''h.p.s''\<rparr>" None] g a
  show ?thesis by (simp add: env_demo_def)
qed

text \<open>
  Claim C8 (the duration parse error). As stated for every call, the claim fails: with
  \<^verbatim>\<open>JWT_DURATION=abc\<close>, which the parser rejects, and a wrong password, the call ends
  with \<^verbatim>\<open>authentication failed\<close>, not with the parser's error.
\<close>

theorem Authenticate_parse_error_counterexample:
  "Getenv env_abc ''JWT_DURATION'' = ''abc''
   \<and> ParseDuration env_abc ''abc'' = (0, Some (LibraryError ''time: invalid duration''))
   \<and> Authenticate env_abc ''a@b.com'' ''wrongpw''
       = Returns (None, Some (ErrorsNew ''authentication failed''))"
  by (simp add: Authenticate_def env_abc_def env_demo_def)

text \<open>
  Claim C8, amended. Take a call where the lookup and the password check succeed, with
  a parser that reads \<^verbatim>\<open>"60m"\<close> as sixty minutes and whose errors are errors of its
  library. \<open>Authenticate\<close> fails with a duration parse error (a \<^verbatim>\<open>nil\<close> token and an
  error of the library) if and only if \<^verbatim>\<open>JWT_DURATION\<close> is present and the parser
  rejects it, and the error is then the one the parser returned. When the value is
  absent the sixty-minute default is used, the call being the one made with
  \<^verbatim>\<open>JWT_DURATION=60m\<close>, and no parse error can occur: the call returns a token, or
  \<open>ErrSign\<close> when the signing fails.
\<close>

theorem Authenticate_parse_error_iff:
  assumes "authRepo e email = (Some user, None)"
    and "CheckPasswordHash e password (Password user)"
    and "ParseDuration e ''60m'' = (60 * Minute, None)"
    and "\<forall>s x. snd (ParseDuration e s) = Some x \<longrightarrow> (\<exists>m. x = LibraryError m)"
  shows "((\<exists>m. Authenticate e email password = Returns (None, Some (LibraryError m)))
          \<longleftrightarrow> Getenv e ''JWT_DURATION'' \<noteq> []
              \<and> snd (ParseDuration e (Getenv e ''JWT_DURATION'')) \<noteq> None)
     \<and> (Getenv e ''JWT_DURATION'' \<noteq> []
          \<and> snd (ParseDuration e (Getenv e ''JWT_DURATION'')) \<noteq> None
          \<longrightarrow> Authenticate e email password
              = Returns (None, snd (ParseDuration e (Getenv e ''JWT_DURATION''))))
     \<and> (Getenv e ''JWT_DURATION'' = []
          \<longrightarrow> Authenticate e email password
              = Authenticate (e\<lparr>Getenv := (Getenv e)(''JWT_DURATION'' := ''60m'')\<rparr>) email password
            \<and> ((\<exists>t. Authenticate e email password = Returns (Some t, None))
                \<or> Authenticate e email password = Returns (None, Some ErrSign)))"
proof -
  let ?jd = "if Getenv e ''JWT_DURATION'' = [] then ''60m'' else Getenv e ''JWT_DURATION''"
  obtain d p where pd: "ParseDuration e ?jd = (d, p)"
    by (cases "ParseDuration e ?jd")
  have same: "Getenv e ''JWT_DURATION'' = []
      \<Longrightarrow> Authenticate e email password
          = Authenticate (e\<lparr>Getenv := (Getenv e)(''JWT_DURATION'' := ''60m'')\<rparr>) email password"
    by (simp add: Authenticate_def generateToken_def Let_def split: prod.splits option.splits)
  show ?thesis
  proof (cases p)
    case (Some x)
    with pd assms(3) have present: "Getenv e ''JWT_DURATION'' \<noteq> []"
      by (auto split: if_splits)
    with pd Some have rej: "ParseDuration e (Getenv e ''JWT_DURATION'') = (d, Some x)"
      by simp
    from assms(4) rej obtain m where m: "x = LibraryError m"
      by (metis snd_conv)
    from assms(1,2) present rej have "Authenticate e email password = Returns (None, Some x)"
      by (simp add: Authenticate_def)
    with present rej m show ?thesis by simp
  next
    case None
    obtain tok g where gt: "generateToken e ''user''
        (Some (User_zero\<lparr>UUID := UUID user, Name := Name user, Email := Email user\<rparr>))
        (Time_Add (Now e) (Minute * d)) = (tok, g)"
      by (cases "generateToken e ''user''
        (Some (User_zero\<lparr>UUID := UUID user, Name := Name user, Email := Email user\<rparr>))
        (Time_Add (Now e) (Minute * d))")
    have g: "g = None \<or> g = Some ErrSign"
      using gt by (auto simp add: generateToken_def Let_def split: if_splits prod.splits)
    from assms(1,2) pd None gt
    have res: "Authenticate e email password
        = (if g \<noteq> None then Returns (None, g) else Returns (Some \<lparr>Token = tok\<rparr>, None))"
      by (simp add: Authenticate_def Let_def)
    from pd None have acc: "Getenv e ''JWT_DURATION'' \<noteq> []
        \<longrightarrow> snd (ParseDuration e (Getenv e ''JWT_DURATION'')) = None"
      by (auto split: if_splits)
    from res g
    have notlib: "\<not> (\<exists>m. Authenticate e email password = Returns (None, Some (LibraryError m)))"
      by auto
    from res g
    have shape: "(\<exists>t. Authenticate e email password = Returns (Some t, None))
        \<or> Authenticate e email password = Returns (None, Some ErrSign)"
      by auto
    from notlib acc
    have c1: "(\<exists>m. Authenticate e email password = Returns (None, Some (LibraryError m)))
          \<longleftrightarrow> Getenv e ''JWT_DURATION'' \<noteq> []
              \<and> snd (ParseDuration e (Getenv e ''JWT_DURATION'')) \<noteq> None"
      by auto
    from acc
    have c2: "Getenv e ''JWT_DURATION'' \<noteq> []
          \<and> snd (ParseDuration e (Getenv e ''JWT_DURATION'')) \<noteq> None
          \<longrightarrow> Authenticate e email password
              = Returns (None, snd (ParseDuration e (Getenv e ''JWT_DURATION'')))"
      by auto
    from same shape
    have c3: "Getenv e ''JWT_DURATION'' = []
          \<longrightarrow> Authenticate e email password
              = Authenticate (e\<lparr>Getenv := (Getenv e)(''JWT_DURATION'' := ''60m'')\<rparr>) email password
            \<and> ((\<exists>t. Authenticate e email password = Returns (Some t, None))
                \<or> Authenticate e email password = Returns (None, Some ErrSign))"
      by blast
    show ?thesis by (rule conjI [OF c1 conjI [OF c2 c3]])
  qed
qed

theorem Authenticate_parse_error_iff_witness:
  "Getenv env_abc ''JWT_DURATION'' \<noteq> []
   \<and> snd (ParseDuration env_abc (Getenv env_abc ''JWT_DURATION'')) \<noteq> None
   \<and> Authenticate env_abc ''a@b.com'' ''correctpw''
       = Returns (None, Some (LibraryError ''time: invalid duration''))
   \<and> Getenv env_demo ''JWT_DURATION'' = []
   \<and> Authenticate env_demo ''a@b.com'' ''correctpw''
       = Authenticate (env_demo\<lparr>Getenv := (Getenv env_demo)(''JWT_DURATION'' := ''60m'')\<rparr>)
           ''a@b.com'' ''correctpw''
   \<and> \<not> (\<exists>m. Authenticate env_demo ''a@b.com'' ''correctpw'' = Returns (None, Some (LibraryError m)))"
proof -
  let ?ann = "\<lparr>UUID = 7, Name = ''Ann'', Email = ''a@b.com'',
               Password = ''H:correctpw'', CreatedAt = 5, UpdatedAt = 6\<rparr>"
  have h1: "authRepo env_abc ''a@b.com'' = (Some ?ann, None)"
    by (simp add: env_abc_def env_demo_def)
  have h2: "CheckPasswordHash env_abc ''correctpw'' (Password ?ann)"
    by (simp add: env_abc_def env_demo_def)
  have h3: "ParseDuration env_abc ''60m'' = (60 * Minute, None)"
    by (simp add: env_abc_def env_demo_def Minute_def)
  have h4: "\<forall>s x. snd (ParseDuration env_abc s) = Some x \<longrightarrow> (\<exists>m. x = LibraryError m)"
    by (simp add: env_abc_def env_demo_def)
  have k1: "authRepo env_demo ''a@b.com'' = (Some ?ann, None)"
    by (simp add: env_demo_def)
  have k2: "CheckPasswordHash env_demo ''correctpw'' (Password ?ann)"
    by (simp add: env_demo_def)
  have k3: "ParseDuration env_demo ''60m'' = (60 * Minute, None)"
    by (simp add: env_demo_def Minute_def)
  have k4: "\<forall>s x. snd (ParseDuration env_demo s) = Some x \<longrightarrow> (\<exists>m. x = LibraryError m)"
    by (simp add: env_demo_def)
  have p: "Getenv env_abc ''JWT_DURATION'' = ''abc''" by (simp add: env_abc_def env_demo_def)
  have q: "ParseDuration env_abc ''abc'' = (0, Some (LibraryError ''time: invalid duration''))"
    by (simp add: env_abc_def env_demo_def)
  have u: "Getenv env_demo ''JWT_DURATION'' = []" by (simp add: env_demo_def)
  from Authenticate_parse_error_iff [OF h1 h2 h3 h4] p q
  have a: "Authenticate env_abc ''a@b.com'' ''correctpw''
       = Returns (None, Some (LibraryError ''time: invalid duration''))"
    by simp
  from Authenticate_parse_error_iff [OF k1 k2 k3 k4] u
  have b: "Authenticate env_demo ''a@b.com'' ''correctpw''
       = Authenticate (env_demo\<lparr>Getenv := (Getenv env_demo)(''JWT_DURATION'' := ''60m'')\<rparr>)
           ''a@b.com'' ''correctpw''
     \<and> \<not> (\<exists>m. Authenticate env_demo ''a@b.com'' ''correctpw'' = Returns (None, Some (LibraryError m)))"
    by blast
  from p have p1: "Getenv env_abc ''JWT_DURATION'' \<noteq> []" by simp
  from p q have q1: "snd (ParseDuration env_abc (Getenv env_abc ''JWT_DURATION'')) \<noteq> None"
    by simp
  from p1 q1 a u b show ?thesis by blast
qed

section \<open>Properties of the users repository\<close>

text \<open>
  Claim C9 (no row is not an error). When \<^verbatim>\<open>GetContext\<close> finds no row, that is, leaves
  the zero-valued destination as it was and returns \<^verbatim>\<open>sql.ErrNoRows\<close>, \<open>FindByID\<close>
  returns the zero-valued record and a \<^verbatim>\<open>nil\<close> error; when \<^verbatim>\<open>SelectContext\<close> returns
  no error or \<^verbatim>\<open>sql.ErrNoRows\<close>, \<open>FindAll\<close> returns the slice as the call left it
  and a \<^verbatim>\<open>nil\<close> error.
\<close>

theorem FindByID_FindAll_swallow_no_rows:
  "(GetContext r User_zero sqlFindByID [ArgUUID uuid] = (User_zero, Some ErrNoRows)
      \<longrightarrow> FindByID r uuid = (Some User_zero, None))
   \<and> (snd (SelectContext r [] sqlFindAll []) = None
        \<or> snd (SelectContext r [] sqlFindAll []) = Some ErrNoRows
      \<longrightarrow> FindAll r = (fst (SelectContext r [] sqlFindAll []), None))"
  by (cases "SelectContext r [] sqlFindAll []") (auto simp add: FindByID_def FindAll_def)

theorem FindByID_FindAll_swallow_no_rows_witness:
  "GetContext conn_demo User_zero sqlFindByID [ArgUUID 3] = (User_zero, Some ErrNoRows)
   \<and> FindByID conn_demo 3 = (Some User_zero, None)
   \<and> snd (SelectContext conn_demo [] sqlFindAll []) = None
   \<and> FindAll conn_demo = ([], None)"
proof -
  have h1: "GetContext conn_demo User_zero sqlFindByID [ArgUUID 3] = (User_zero, Some ErrNoRows)"
    by (simp add: conn_demo_def)
  have h2: "snd (SelectContext conn_demo [] sqlFindAll []) = None"
    by (simp add: conn_demo_def)
  have h3: "fst (SelectContext conn_demo [] sqlFindAll []) = []"
    by (simp add: conn_demo_def)
  from FindByID_FindAll_swallow_no_rows [of conn_demo 3] h1 h2 h3
  show ?thesis by simp
qed

text \<open>
  Claim C10 (rows affected). When the statement runs and the count of affected rows is
  read without error, \<open>Update\<close> and \<open>Delete\<close> return \<open>ErrResourceNotFound\<close> if and only if
  the count is zero, and \<^verbatim>\<open>nil\<close> otherwise.
\<close>

theorem Update_Delete_rows_affected:
  "(snd (ExecContext r sqlUpdate
           [ArgString (Name user), ArgString (Email user), ArgString (Password user),
            ArgTime (UpdatedAt user), ArgUUID uuid]) = None
    \<and> RowsAffected (fst (ExecContext r sqlUpdate
           [ArgString (Name user), ArgString (Email user), ArgString (Password user),
            ArgTime (UpdatedAt user), ArgUUID uuid])) = (n, None)
    \<longrightarrow> (Update r uuid user = Some ErrResourceNotFound \<longleftrightarrow> n = 0)
        \<and> (n \<noteq> 0 \<longrightarrow> Update r uuid user = None))
   \<and> (snd (ExecContext r sqlDelete [ArgUUID uuid']) = None
    \<and> RowsAffected (fst (ExecContext r sqlDelete [ArgUUID uuid'])) = (m, None)
    \<longrightarrow> (Delete r uuid' = Some ErrResourceNotFound \<longleftrightarrow> m = 0)
        \<and> (m \<noteq> 0 \<longrightarrow> Delete r uuid' = None))"
proof (intro conjI impI; elim conjE)
  assume "snd (ExecContext r sqlUpdate
           [ArgString (Name user), ArgString (Email user), ArgString (Password user),
            ArgTime (UpdatedAt user), ArgUUID uuid]) = None"
    and "RowsAffected (fst (ExecContext r sqlUpdate
           [ArgString (Name user), ArgString (Email user), ArgString (Password user),
            ArgTime (UpdatedAt user), ArgUUID uuid])) = (n, None)"
  then have u: "Update r uuid user = (if n = 0 then Some ErrResourceNotFound else None)"
    by (cases "ExecContext r sqlUpdate
           [ArgString (Name user), ArgString (Email user), ArgString (Password user),
            ArgTime (UpdatedAt user), ArgUUID uuid]") (simp add: Update_def)
  from u show "Update r uuid user = Some ErrResourceNotFound \<longleftrightarrow> n = 0" by simp
  from u show "n \<noteq> 0 \<Longrightarrow> Update r uuid user = None" by simp
next
  assume "snd (ExecContext r sqlDelete [ArgUUID uuid']) = None"
    and "RowsAffected (fst (ExecContext r sqlDelete [ArgUUID uuid'])) = (m, None)"
  then have d: "Delete r uuid' = (if m = 0 then Some ErrResourceNotFound else None)"
    by (cases "ExecContext r sqlDelete [ArgUUID uuid']") (simp add: Delete_def)
  from d show "Delete r uuid' = Some ErrResourceNotFound \<longleftrightarrow> m = 0" by simp
  from d show "m \<noteq> 0 \<Longrightarrow> Delete r uuid' = None" by simp
qed

theorem Update_Delete_rows_affected_witness:
  "Update conn_demo 3 User_zero = None \<and> Delete conn_demo 3 = Some ErrResourceNotFound"
proof -
  have h1: "snd (ExecContext conn_demo sqlUpdate
           [ArgString (Name User_zero), ArgString (Email User_zero), ArgString (Password User_zero),
            ArgTime (UpdatedAt User_zero), ArgUUID 3]) = None"
    by (simp add: conn_demo_def)
  have h2: "RowsAffected (fst (ExecContext conn_demo sqlUpdate
           [ArgString (Name User_zero), ArgString (Email User_zero), ArgString (Password User_zero),
            ArgTime (UpdatedAt User_zero), ArgUUID 3])) = (1, None)"
    by (simp add: conn_demo_def)
  have h3: "snd (ExecContext conn_demo sqlDelete [ArgUUID 3]) = None"
    by (simp add: conn_demo_def)
  have h4: "RowsAffected (fst (ExecContext conn_demo sqlDelete [ArgUUID 3])) = (0, None)"
    by (simp add: conn_demo_def)
  from Update_Delete_rows_affected [of conn_demo User_zero 3 1 3 0] h1 h2 h3 h4
  show ?thesis by simp
qed

end
